theory Spec2Isabelle
  imports Main "HOL-Library.Sublist"
begin

section \<open>Python string operations used by the scripts\<close>

text \<open>
  Python strings are modelled as \<^typ>\<open>string\<close>: a character is a code point below 256
  (Latin-1), which covers every literal the scripts search for. The functions below are
  the \<^verbatim>\<open>str\<close> methods the scripts call, restricted to that range.
\<close>

definition is_space :: "char \<Rightarrow> bool" where
  \<comment> \<open>\<^verbatim>\<open>str.isspace\<close> on one code point below 256: TAB, LF, VT, FF, CR, FS, GS, RS, US,
      SPACE, NEL and NBSP.\<close>
  "is_space c = ((of_char c :: nat) \<in> {9, 10, 11, 12, 13, 28, 29, 30, 31, 32, 133, 160})"

definition py_strip :: "string \<Rightarrow> string" where
  \<comment> \<open>\<^verbatim>\<open>s.strip()\<close>\<close>
  "py_strip s = rev (dropWhile is_space (rev (dropWhile is_space s)))"

definition py_startswith :: "string \<Rightarrow> string \<Rightarrow> bool" where
  \<comment> \<open>\<^verbatim>\<open>s.startswith(p)\<close>\<close>
  "py_startswith s p = prefix p s"

definition py_endswith :: "string \<Rightarrow> string \<Rightarrow> bool" where
  \<comment> \<open>\<^verbatim>\<open>s.endswith(p)\<close>\<close>
  "py_endswith s p = suffix p s"

fun find_from :: "string \<Rightarrow> string \<Rightarrow> nat \<Rightarrow> int" where
  "find_from t [] i = (if t = [] then int i else - 1)"
| "find_from t (c # cs) i = (if prefix t (c # cs) then int i else find_from t cs (Suc i))"

definition py_find :: "string \<Rightarrow> string \<Rightarrow> int" where
  \<comment> \<open>\<^verbatim>\<open>s.find(t)\<close>: the lowest index at which \<open>t\<close> occurs in \<open>s\<close>, or \<open>-1\<close>.\<close>
  "py_find s t = find_from t s 0"

definition py_in :: "string \<Rightarrow> string \<Rightarrow> bool" where
  \<comment> \<open>\<^verbatim>\<open>t in s\<close>\<close>
  "py_in t s = (py_find s t \<noteq> - 1)"

definition slice_index :: "int \<Rightarrow> int \<Rightarrow> int" where
  \<comment> \<open>How a slice bound \<open>i\<close> is adjusted for a sequence of length \<open>n\<close>: a negative bound
      counts from the end, and the result is clipped to \<open>0..n\<close>.\<close>
  "slice_index n i = (if i < 0 then max 0 (i + n) else min i n)"

definition py_slice :: "string \<Rightarrow> int \<Rightarrow> int \<Rightarrow> string" where
  \<comment> \<open>\<^verbatim>\<open>s[a:b]\<close>\<close>
  "py_slice s a b =
     (let n = int (length s); lo = slice_index n a; hi = slice_index n b
      in take (nat (hi - lo)) (drop (nat lo) s))"

definition py_slice_from :: "string \<Rightarrow> int \<Rightarrow> string" where
  \<comment> \<open>\<^verbatim>\<open>s[a:]\<close>\<close>
  "py_slice_from s a = drop (nat (slice_index (int (length s)) a)) s"

definition lower_char :: "char \<Rightarrow> char" where
  \<comment> \<open>\<^verbatim>\<open>str.lower\<close> on one code point below 256: A-Z and the Latin-1 capitals
      (192-222 without the multiplication sign 215) move up by 32.\<close>
  "lower_char c =
     (let n = (of_char c :: nat)
      in if (65 \<le> n \<and> n \<le> 90) \<or> (192 \<le> n \<and> n \<le> 222 \<and> n \<noteq> 215)
         then char_of (n + 32) else c)"

definition py_lower :: "string \<Rightarrow> string" where
  \<comment> \<open>\<^verbatim>\<open>s.lower()\<close>\<close>
  "py_lower s = map lower_char s"


section \<open>temp\_camoufox\_script.py: removing the HTML wrapper\<close>

definition open_tag :: string where
  "open_tag = ''<ownershipDocument>''"

definition close_tag :: string where
  "close_tag = ''</ownershipDocument>''"

definition xml_decl :: string where
  "xml_decl = ''<?xml''"

definition unwrap_html :: "string \<Rightarrow> string" where
  \<comment> \<open>Lines 29-39 of \<^verbatim>\<open>make_request\<close>: the value of \<^verbatim>\<open>raw_content\<close> after the clean-up.\<close>
  "unwrap_html raw_content =
     (if py_startswith (py_strip raw_content) ''<html'' then
        (let start = py_find raw_content open_tag in
         if start > - 1 then
           (let end = py_find raw_content close_tag + int (length close_tag)
            in py_slice raw_content start end)
         else
           (let start = py_find raw_content xml_decl in
            if start > - 1 then py_slice_from raw_content start else raw_content))
      else raw_content)"


section \<open>The browser backend\<close>

text \<open>
  The scripts drive an external browser library. Each of its calls either returns or
  raises an exception of class \<^verbatim>\<open>Exception\<close>; a backend value fixes the outcome of every
  call, so it is deterministic: the outcome of a navigation depends on the URL only.
  An exception is its class and its message; \<^verbatim>\<open>str(e)\<close> gives the message.
\<close>

datatype exn_class = TimeoutError | Error | AttributeError

datatype exn = Exn exn_class string

fun py_str :: "exn \<Rightarrow> string" where
  "py_str (Exn _ m) = m"

record response =
  status :: int
  headers :: "(string \<times> string) list"

record backend =
  launch :: "exn option"
    \<comment> \<open>entering \<^verbatim>\<open>Camoufox(...)\<close>: \<open>Some e\<close> when the browser cannot start\<close>
  new_page :: "exn option"
  set_extra_http_headers :: "exn option"
  goto :: "string \<Rightarrow> exn + response option"
    \<comment> \<open>\<^verbatim>\<open>page.goto(url, ...)\<close>: raises, or returns a response or \<^verbatim>\<open>None\<close>\<close>
  content_of :: "string \<Rightarrow> exn + string"
    \<comment> \<open>\<^verbatim>\<open>page.content()\<close> of the page last navigated to the URL\<close>
  close :: "exn option"
    \<comment> \<open>leaving the \<^verbatim>\<open>with\<close> block: \<open>Some e\<close> when closing the browser raises\<close>
  close_releases :: bool
    \<comment> \<open>whether a close that raises has released the session all the same\<close>

datatype call =
    Launch "(string \<times> bool) list"
  | NewPage
  | SetHeaders "(string \<times> string) list"
  | Goto string string "int option"
  | Content
  | Close nat

text \<open>
  The world a script runs in: what it has printed, the backend calls it has made, and
  the sessions the backend holds open (by session id).
\<close>

record 'o world =
  stdout :: "'o list"
  calls :: "call list"
  open_ids :: "nat list"

definition log :: "call \<Rightarrow> 'o world \<Rightarrow> 'o world" where
  "log c w = w\<lparr>calls := calls w @ [c]\<rparr>"

definition print :: "'o \<Rightarrow> 'o world \<Rightarrow> 'o world" where
  "print x w = w\<lparr>stdout := stdout w @ [x]\<rparr>"

definition fresh_id :: "nat list \<Rightarrow> nat" where
  "fresh_id ids = Suc (foldr max ids 0)"

definition session_close :: "nat \<Rightarrow> 'o world \<Rightarrow> 'o world" where
  \<comment> \<open>The backend releases session \<open>sid\<close>; nothing happens when it is not open.\<close>
  "session_close sid w = w\<lparr>open_ids := removeAll sid (open_ids w)\<rparr>"

definition camoufox_enter :: "backend \<Rightarrow> (string \<times> bool) list \<Rightarrow> 'o world \<Rightarrow> (exn + nat) \<times> 'o world" where
  "camoufox_enter b opts w =
     (let w1 = log (Launch opts) w in
      case launch b of
        Some e \<Rightarrow> (Inl e, w1)
      | None \<Rightarrow> (let sid = fresh_id (open_ids w1) in (Inr sid, w1\<lparr>open_ids := sid # open_ids w1\<rparr>)))"

definition backend_close :: "backend \<Rightarrow> nat \<Rightarrow> 'o world \<Rightarrow> 'o world" where
  \<comment> \<open>What a close of session \<open>sid\<close> does to the backend: a close that returns has
      released the session; for one that raises the backend says.\<close>
  "backend_close b sid w =
     (if close b = None \<or> close_releases b then session_close sid w else w)"

definition camoufox_exit :: "backend \<Rightarrow> nat \<Rightarrow> 'o world \<Rightarrow> exn option \<times> 'o world" where
  \<comment> \<open>The exit of the \<^verbatim>\<open>with\<close> block asks the backend to close session \<open>sid\<close>.\<close>
  "camoufox_exit b sid w = (close b, backend_close b sid (log (Close sid) w))"

definition with_camoufox ::
  "backend \<Rightarrow> (string \<times> bool) list \<Rightarrow> ('o world \<Rightarrow> (exn + 'a) \<times> 'o world) \<Rightarrow> 'o world \<Rightarrow> (exn + 'a) \<times> 'o world" where
  \<comment> \<open>\<^verbatim>\<open>with Camoufox(...) as browser: body\<close>. When entering raises, the body and the exit
      do not run. Otherwise the exit runs once, whether the body returned or raised; an
      exception raised by the exit replaces the outcome of the body.\<close>
  "with_camoufox b opts body w =
     (case camoufox_enter b opts w of
        (Inl e, w1) \<Rightarrow> (Inl e, w1)
      | (Inr sid, w1) \<Rightarrow>
          (case body w1 of
             (r, w2) \<Rightarrow>
               (case camoufox_exit b sid w2 of
                  (Some e, w3) \<Rightarrow> (Inl e, w3)
                | (None, w3) \<Rightarrow> (r, w3))))"

definition browser_new_page :: "backend \<Rightarrow> 'o world \<Rightarrow> exn option \<times> 'o world" where
  "browser_new_page b w = (new_page b, log NewPage w)"

definition page_set_extra_http_headers ::
  "backend \<Rightarrow> (string \<times> string) list \<Rightarrow> 'o world \<Rightarrow> exn option \<times> 'o world" where
  "page_set_extra_http_headers b hs w = (set_extra_http_headers b, log (SetHeaders hs) w)"

definition page_goto ::
  "backend \<Rightarrow> string \<Rightarrow> string \<Rightarrow> int option \<Rightarrow> 'o world \<Rightarrow> (exn + response option) \<times> 'o world" where
  "page_goto b url wait_until timeout w = (goto b url, log (Goto url wait_until timeout) w)"

definition page_content :: "backend \<Rightarrow> string \<Rightarrow> 'o world \<Rightarrow> (exn + string) \<times> 'o world" where
  "page_content b url w = (content_of b url, log Content w)"

definition none_has_no_status :: exn where
  \<comment> \<open>What \<^verbatim>\<open>response.status\<close> raises when \<^verbatim>\<open>page.goto\<close> returned \<^verbatim>\<open>None\<close>.\<close>
  "none_has_no_status =
     Exn AttributeError
       ([CHR 0x27] @ ''NoneType'' @ [CHR 0x27] @ '' object has no attribute ''
        @ [CHR 0x27] @ ''status'' @ [CHR 0x27])"


section \<open>temp\_camoufox\_script.py: make\_request\<close>

datatype json = JNull | JStr string | JInt int | JObj "(string \<times> json) list"

definition request_url :: string where
  "request_url =
     ''https://www.sec.gov/Archives/edgar/data/9631/000183988225050613/xslF345X04/ownership.xml''"

definition request_headers :: "(string \<times> string) list" where
  "request_headers =
     [(''User-Agent'', ''Mozilla/5.0 (Windows NT 10.0; Win64; x64; rv:135.0) Gecko/20100101 Firefox/135.0''),
      (''Accept'', ''application/xml''),
      (''Accept-Language'', ''en-US,en;q=0.9''),
      (''Accept-Encoding'', ''gzip, deflate, br''),
      (''Connection'', ''keep-alive''),
      (''Upgrade-Insecure-Requests'', ''1''),
      (''Sec-Fetch-Dest'', ''document''),
      (''Sec-Fetch-Mode'', ''navigate''),
      (''Sec-Fetch-Site'', ''none''),
      (''Cache-Control'', ''no-cache'')]"

definition camoufox_options :: "(string \<times> bool) list" where
  "camoufox_options = [(''headless'', True), (''humanize'', True), (''i_know_what_im_doing'', True)]"

definition xml_guard :: bool where
  \<comment> \<open>The test of line 24.\<close>
  "xml_guard = (py_endswith request_url ''.xml'' \<or> py_in ''application/xml'' ''application/xml'')"

definition result :: "string \<Rightarrow> response \<Rightarrow> json" where
  \<comment> \<open>The dictionary of lines 46-50.\<close>
  "result data response =
     JObj [(''data'', JStr data),
           (''status'', JInt (status response)),
           (''headers'', JObj (if headers response \<noteq> []
                               then map (\<lambda>(k, v). (k, JStr v)) (headers response) else []))]"

definition error_result :: "exn \<Rightarrow> json" where
  \<comment> \<open>The dictionary of lines 55-60.\<close>
  "error_result e =
     JObj [(''data'', JNull), (''status'', JInt 500), (''headers'', JObj []),
           (''error'', JStr (py_str e))]"

definition read_data :: "backend \<Rightarrow> json world \<Rightarrow> (exn + string) \<times> json world" where
  \<comment> \<open>Lines 24-44: the value of \<^verbatim>\<open>data\<close>.\<close>
  "read_data b w =
     (if xml_guard then
        (case page_content b request_url w of
           (Inl e, w1) \<Rightarrow> (Inl e, w1)
         | (Inr raw_content, w1) \<Rightarrow> (Inr (py_strip (unwrap_html raw_content)), w1))
      else page_content b request_url w)"

definition make_request_page :: "backend \<Rightarrow> json world \<Rightarrow> (exn + unit) \<times> json world" where
  \<comment> \<open>Lines 15-52: the body of the \<^verbatim>\<open>with\<close> block.\<close>
  "make_request_page b w =
     (case browser_new_page b w of
        (Some e, w1) \<Rightarrow> (Inl e, w1)
      | (None, w1) \<Rightarrow>
     (case page_set_extra_http_headers b request_headers w1 of
        (Some e, w2) \<Rightarrow> (Inl e, w2)
      | (None, w2) \<Rightarrow>
     (case page_goto b request_url ''domcontentloaded'' (Some 30000) w2 of
        (Inl e, w3) \<Rightarrow> (Inl e, w3)
      | (Inr response, w3) \<Rightarrow>
     (case read_data b w3 of
        (Inl e, w4) \<Rightarrow> (Inl e, w4)
      | (Inr data, w4) \<Rightarrow>
     (case response of
        None \<Rightarrow> (Inl none_has_no_status, w4)
      | Some r \<Rightarrow> (Inr (), print (result data r) w4))))))"

definition make_request :: "backend \<Rightarrow> json world \<Rightarrow> json world" where
  \<comment> \<open>Lines 8-61: the \<^verbatim>\<open>try\<close> statement.\<close>
  "make_request b w =
     (case with_camoufox b camoufox_options (make_request_page b) w of
        (Inl e, w1) \<Rightarrow> print (error_result e) w1
      | (Inr _, w1) \<Rightarrow> w1)"

fun keys_of :: "json \<Rightarrow> string list" where
  \<comment> \<open>The keys of a printed object, in order.\<close>
  "keys_of (JObj kvs) = map fst kvs"
| "keys_of _ = []"

definition printed_by :: "backend \<Rightarrow> json world \<Rightarrow> json list" where
  \<comment> \<open>What one run of \<^verbatim>\<open>make_request\<close> adds to the output.\<close>
  "printed_by b w = drop (length (stdout w)) (stdout (make_request b w))"

definition w0 :: "'o world" where
  \<comment> \<open>Nothing printed, no call made, no session open.\<close>
  "w0 = \<lparr>stdout = [], calls = [], open_ids = []\<rparr>"


section \<open>test-camoufox.py and test-sec-data.py\<close>

text \<open>
  The test scripts print lines of text and return a truth value. A printed line is the
  list of its pieces, so that a formatted number stays a number; the pictograph that
  starts each message in the source is left out. \<^verbatim>\<open>time.sleep\<close> has no effect here.
\<close>

datatype frag = S string | I int

type_synonym line = "frag list"

definition py_slice_to :: "string \<Rightarrow> int \<Rightarrow> string" where
  \<comment> \<open>\<^verbatim>\<open>s[:b]\<close>\<close>
  "py_slice_to s b = take (nat (slice_index (int (length s)) b)) s"

definition is_block_page :: "string \<Rightarrow> bool" where
  \<comment> \<open>The test \<^verbatim>\<open>'access denied' in content.lower() or 'blocked' in content.lower()\<close>.\<close>
  "is_block_page content =
     (py_in ''access denied'' (py_lower content) \<or> py_in ''blocked'' (py_lower content))"

definition sec_main_url :: string where
  "sec_main_url = ''https://www.sec.gov/''"

definition edgar_search_url :: string where
  "edgar_search_url = ''https://www.sec.gov/edgar/searchedgar/companysearch.html''"

definition access_options :: "(string \<times> bool) list" where
  "access_options = [(''headless'', True), (''humanize'', True), (''block_webgl'', True)]"

definition access_headers :: "(string \<times> string) list" where
  "access_headers =
     [(''User-Agent'', ''Mozilla/5.0 (Windows NT 10.0; Win64; x64; rv:135.0) Gecko/20100101 Firefox/135.0''),
      (''Accept'', ''text/html,application/xhtml+xml,application/xml;q=0.9,image/avif,image/webp,*/*;q=0.8''),
      (''Accept-Language'', ''en-US,en;q=0.5''),
      (''Accept-Encoding'', ''gzip, deflate, br''),
      (''Connection'', ''keep-alive''),
      (''Upgrade-Insecure-Requests'', ''1'')]"

definition edgar_search_part :: "backend \<Rightarrow> line world \<Rightarrow> (exn + bool) \<times> line world" where
  \<comment> \<open>Lines 48-60 of \<^verbatim>\<open>test_sec_access\<close>.\<close>
  "edgar_search_part b w =
     (let w1 = print [S ''Testing SEC EDGAR search...''] w in
      case page_goto b edgar_search_url ''networkidle'' None w1 of
        (Inl e, w2) \<Rightarrow> (Inl e, w2)
      | (Inr response2, w2) \<Rightarrow>
     (case response2 of
        None \<Rightarrow> (Inl none_has_no_status, w2)
      | Some r2 \<Rightarrow>
     (let w3 = print [S ''EDGAR search status: '', I (status r2)] w2 in
      case page_content b edgar_search_url w3 of
        (Inl e, w4) \<Rightarrow> (Inl e, w4)
      | (Inr content2, w4) \<Rightarrow>
          if is_block_page content2
          then (Inr False, print [S ''EDGAR search was blocked!''] w4)
          else (Inr True, print [S ''EDGAR search successful - no blocking detected''] w4))))"

definition test_sec_access_page :: "backend \<Rightarrow> line world \<Rightarrow> (exn + bool) \<times> line world" where
  \<comment> \<open>Lines 19-60 of \<^verbatim>\<open>test_sec_access\<close>: the body of the \<^verbatim>\<open>with\<close> block.\<close>
  "test_sec_access_page b w =
     (case browser_new_page b w of
        (Some e, w1) \<Rightarrow> (Inl e, w1)
      | (None, w1) \<Rightarrow>
     (case page_set_extra_http_headers b access_headers w1 of
        (Some e, w2) \<Rightarrow> (Inl e, w2)
      | (None, w2) \<Rightarrow>
     (let w3 = print [S ''Testing SEC main page...''] w2 in
      case page_goto b sec_main_url ''networkidle'' None w3 of
        (Inl e, w4) \<Rightarrow> (Inl e, w4)
      | (Inr response, w4) \<Rightarrow>
     (case response of
        None \<Rightarrow> (Inl none_has_no_status, w4)
      | Some r \<Rightarrow>
     (let w5 = print [S ''Response status: '', I (status r)] w4 in
      case page_content b sec_main_url w5 of
        (Inl e, w6) \<Rightarrow> (Inl e, w6)
      | (Inr content, w6) \<Rightarrow>
          if is_block_page content
          then (Inr False, print [S ''Request was blocked!''] w6)
          else edgar_search_part b
                 (print [S ''Request successful - no blocking detected''] w6))))))"

definition test_sec_access :: "backend \<Rightarrow> line world \<Rightarrow> bool \<times> line world" where
  "test_sec_access b w =
     (let w1 = print [S ''Starting Camoufox test...''] w in
      case with_camoufox b access_options (test_sec_access_page b) w1 of
        (Inl e, w2) \<Rightarrow> (False, print [S ''Camoufox test failed: '', S (py_str e)] w2)
      | (Inr r, w2) \<Rightarrow> (r, w2))"

definition form4_url :: string where
  "form4_url =
     ''https://www.sec.gov/Archives/edgar/data/1774807/000121390025087374/ownership.xml''"

definition form4_headers :: "(string \<times> string) list" where
  "form4_headers =
     [(''User-Agent'', ''Mozilla/5.0 (Windows NT 10.0; Win64; x64; rv:135.0) Gecko/20100101 Firefox/135.0''),
      (''Accept'', ''application/xml, text/xml, */*''),
      (''Accept-Language'', ''en-US,en;q=0.5''),
      (''Accept-Encoding'', ''gzip, deflate, br''),
      (''Connection'', ''keep-alive'')]"

definition is_form4_xml :: "string \<Rightarrow> bool" where
  \<comment> \<open>The test of line 42 of \<^verbatim>\<open>test_sec_form4_data\<close>.\<close>
  "is_form4_xml content =
     (py_startswith (py_strip content) ''<?xml'' \<and> py_in ''<ownershipDocument>'' content)"

definition report_form4 :: "string \<Rightarrow> line world \<Rightarrow> line world" where
  \<comment> \<open>Lines 43-54 of \<^verbatim>\<open>test_sec_form4_data\<close>: what is printed for a filing.\<close>
  "report_form4 content w =
     (let w1 = print [S ''Successfully retrieved Form 4 XML data!''] w;
          w2 = print [S ''Data length: '', I (int (length content)), S '' characters''] w1;
          w3 = (if py_in ''CorMedix'' content
                then print [S ''Found CorMedix data - matches our database!''] w2 else w2);
          w4 = (if py_in ''Todisco'' content
                then print [S ''Found Todisco trader - data is correct!''] w3 else w3);
          w5 = print [S ''Sample data:''] w4
      in print [S (py_slice_to content 500 @ ''...'')] w5)"

definition test_sec_form4_data_page :: "backend \<Rightarrow> line world \<Rightarrow> (exn + bool) \<times> line world" where
  \<comment> \<open>Lines 21-64 of \<^verbatim>\<open>test_sec_form4_data\<close>: the body of the \<^verbatim>\<open>with\<close> block.\<close>
  "test_sec_form4_data_page b w =
     (case browser_new_page b w of
        (Some e, w1) \<Rightarrow> (Inl e, w1)
      | (None, w1) \<Rightarrow>
     (case page_set_extra_http_headers b form4_headers w1 of
        (Some e, w2) \<Rightarrow> (Inl e, w2)
      | (None, w2) \<Rightarrow>
     (let w3 = print [S ''Fetching Form 4 data from: '', S form4_url] w2 in
      case page_goto b form4_url ''networkidle'' None w3 of
        (Inl e, w4) \<Rightarrow> (Inl e, w4)
      | (Inr response, w4) \<Rightarrow>
     (case response of
        None \<Rightarrow> (Inl none_has_no_status, w4)
      | Some r \<Rightarrow>
     (let w5 = print [S ''Response status: '', I (status r)] w4 in
      case page_content b form4_url w5 of
        (Inl e, w6) \<Rightarrow> (Inl e, w6)
      | (Inr content, w6) \<Rightarrow>
          if is_form4_xml content then (Inr True, report_form4 content w6)
          else if is_block_page content
          then (Inr False, print [S ''Request was blocked by WAF!''] w6)
          else (Inr False,
                print [S (py_slice_to content 200)]
                  (print [S ''First 200 characters:'']
                     (print [S ''Unexpected response format. Length: '', I (int (length content))]
                        w6))))))))"

definition test_sec_form4_data :: "backend \<Rightarrow> line world \<Rightarrow> bool \<times> line world" where
  "test_sec_form4_data b w =
     (let w1 = print [S ''Testing SEC Form 4 data retrieval...''] w in
      case with_camoufox b camoufox_options (test_sec_form4_data_page b) w1 of
        (Inl e, w2) \<Rightarrow> (False, print [S ''SEC Form 4 test failed: '', S (py_str e)] w2)
      | (Inr r, w2) \<Rightarrow> (r, w2))"


section \<open>Sample inputs\<close>

definition ok_response :: response where
  "ok_response = \<lparr>status = 200, headers = [(''content-type'', ''text/html'')]\<rparr>"

definition serving :: "response \<Rightarrow> string \<Rightarrow> backend" where
  \<comment> \<open>A backend on which every call succeeds: each navigation returns \<open>r\<close> and each
      page has the content \<open>raw\<close>.\<close>
  "serving r raw =
     \<lparr>launch = None, new_page = None, set_extra_http_headers = None,
      goto = (\<lambda>url. Inr (Some r)), content_of = (\<lambda>url. Inr raw), close = None,
      close_releases = True\<rparr>"

definition wrapped_filing :: string where
  "wrapped_filing = ''<html><body><ownershipDocument><a/></ownershipDocument></body></html>''"

definition unclosed_filing :: string where
  "unclosed_filing = ''<html><body><?xml ?><ownershipDocument><a/></body></html>''"


definition denial_page :: string where
  "denial_page = ''<html><body><h1>Access Denied</h1></body></html>''"

definition plain_page :: string where
  "plain_page = ''<html><body>EDGAR</body></html>''"

definition refusing :: "exn \<Rightarrow> backend" where
  \<comment> \<open>A backend on which every navigation raises \<open>e\<close>.\<close>
  "refusing e = (serving ok_response [])\<lparr>goto := (\<lambda>url. Inl e)\<rparr>"

definition failing_close :: backend where
  \<comment> \<open>A backend that serves a wrapped filing and then fails to close the browser.\<close>
  "failing_close =
     (serving ok_response wrapped_filing)\<lparr>close := Some (Exn Error ''Connection closed'')\<rparr>"

definition double_fault :: backend where
  \<comment> \<open>A backend on which the navigation is aborted and closing the browser fails too.\<close>
  "double_fault =
     (refusing (Exn Error ''net::ERR_ABORTED''))\<lparr>close := Some (Exn Error ''Connection closed'')\<rparr>"

definition denying_search :: backend where
  \<comment> \<open>A backend that serves the main page and a denial page for the EDGAR search.\<close>
  "denying_search =
     (serving ok_response plain_page)
       \<lparr>content_of := (\<lambda>url. if url = edgar_search_url then Inr denial_page else Inr plain_page)\<rparr>"



section \<open>Facts about the string operations\<close>

lemma find_from_range: "find_from t s k = - 1 \<or> (int k \<le> find_from t s k \<and> find_from t s k \<le> int (k + length s))"
proof (induction s arbitrary: k)
  case Nil
  then show ?case by simp
next
  case (Cons c cs)
  show ?case
    using Cons.IH [of "Suc k"] by (cases "prefix t (c # cs)") auto
qed

lemma find_from_none: "find_from t s k = - 1 \<longleftrightarrow> (\<forall>i\<le>length s. \<not> prefix t (drop i s))"
proof (induction s arbitrary: k)
  case Nil
  then show ?case by auto
next
  case (Cons c cs)
  show ?case
  proof (cases "prefix t (c # cs)")
    case True
    then show ?thesis by (auto intro: exI [of _ 0])
  next
    case False
    have "(\<forall>i\<le>length (c # cs). \<not> prefix t (drop i (c # cs))) \<longleftrightarrow> (\<forall>i\<le>length cs. \<not> prefix t (drop i cs))"
    proof
      assume h: "\<forall>i\<le>length (c # cs). \<not> prefix t (drop i (c # cs))"
      show "\<forall>i\<le>length cs. \<not> prefix t (drop i cs)"
      proof (intro allI impI)
        fix i assume "i \<le> length cs"
        with h have "\<not> prefix t (drop (Suc i) (c # cs))" by (metis Suc_le_mono length_Cons)
        then show "\<not> prefix t (drop i cs)" by simp
      qed
    next
      assume h: "\<forall>i\<le>length cs. \<not> prefix t (drop i cs)"
      show "\<forall>i\<le>length (c # cs). \<not> prefix t (drop i (c # cs))"
      proof (intro allI impI)
        fix i assume "i \<le> length (c # cs)"
        then show "\<not> prefix t (drop i (c # cs))"
          using h False by (cases i) auto
      qed
    qed
    with False Cons.IH [of "Suc k"] show ?thesis by simp
  qed
qed


lemma py_find_none: "py_find s t = - 1 \<longleftrightarrow> (\<forall>i\<le>length s. \<not> prefix t (drop i s))"
  unfolding py_find_def by (rule find_from_none)


lemma py_find_range: "py_find s t = - 1 \<or> (0 \<le> py_find s t \<and> py_find s t \<le> int (length s))"
  unfolding py_find_def using find_from_range [of t s 0] by simp

lemma py_in_iff: "py_in t s \<longleftrightarrow> (\<exists>pre post. s = pre @ t @ post)"
proof -
  have "py_in t s \<longleftrightarrow> (\<exists>i\<le>length s. prefix t (drop i s))"
    by (simp add: py_in_def py_find_none)
  also have "\<dots> \<longleftrightarrow> (\<exists>pre post. s = pre @ t @ post)"
  proof
    assume "\<exists>i\<le>length s. prefix t (drop i s)"
    then obtain i post where "drop i s = t @ post" by (auto simp: prefix_def)
    then have "s = take i s @ t @ post" by (metis append_take_drop_id)
    then show "\<exists>pre post. s = pre @ t @ post" by blast
  next
    assume "\<exists>pre post. s = pre @ t @ post"
    then obtain pre post where s: "s = pre @ t @ post" by blast
    then have "length pre \<le> length s" "prefix t (drop (length pre) s)" by simp_all
    then show "\<exists>i\<le>length s. prefix t (drop i s)" by blast
  qed
  finally show ?thesis .
qed

lemma py_strip_id:
  assumes "s \<noteq> []" "\<not> is_space (hd s)" "\<not> is_space (last s)"
  shows "py_strip s = s"
proof -
  from assms have 1: "dropWhile is_space s = s" by (cases s) auto
  from assms have 2: "dropWhile is_space (rev s) = rev s" by (cases "rev s") (auto simp: hd_rev)
  show ?thesis by (simp add: py_strip_def 1 2)
qed

lemma py_slice_append:
  "py_slice (pre @ doc @ post) (int (length pre)) (int (length pre + length doc)) = doc"
  by (simp add: py_slice_def slice_index_def Let_def min_def)


section \<open>Facts about the backend and make\_request\<close>

lemma xml_guard_true: "xml_guard"
  by (simp add: xml_guard_def py_endswith_def request_url_def suffix_to_prefix)


lemma backend_close_stdout: "stdout (backend_close b sid w) = stdout w"
  by (simp add: backend_close_def session_close_def)

lemma backend_close_calls: "calls (backend_close b sid w) = calls w"
  by (simp add: backend_close_def session_close_def)

lemmas backend_calls =
  browser_new_page_def page_set_extra_http_headers_def page_goto_def page_content_def
  camoufox_enter_def camoufox_exit_def with_camoufox_def log_def print_def
  backend_close_stdout backend_close_calls

lemma make_request_success:
  assumes "launch b = None" "new_page b = None" "set_extra_http_headers b = None"
    and "goto b request_url = Inr (Some r)" "content_of b request_url = Inr raw" "close b = None"
  shows "stdout (make_request b w) = stdout w @ [result (py_strip (unwrap_html raw)) r]"
  using assms
  by (simp add: make_request_def make_request_page_def read_data_def xml_guard_true backend_calls Let_def)

lemmas make_request_defs =
  make_request_def make_request_page_def read_data_def backend_calls Let_def

lemmas test_defs =
  test_sec_access_def test_sec_access_page_def edgar_search_part_def
  test_sec_form4_data_def test_sec_form4_data_page_def backend_calls Let_def

lemma make_request_stdout: "stdout (make_request b w) = stdout w @ stdout (make_request b w0)"
  by (simp add: make_request_defs w0_def case_prod_beta split: option.splits sum.splits)

lemma make_request_prints_one:
  assumes "close b = None"
  shows "\<exists>j. stdout (make_request b w) = stdout w @ [j]"
  using assms
  by (simp add: make_request_defs case_prod_beta split: option.splits sum.splits)






lemma result_fields:
  "result data r =
     JObj [(''data'', JStr data), (''status'', JInt (status r)),
           (''headers'', JObj (map (\<lambda>(k, v). (k, JStr v)) (headers r)))]"
  by (simp add: result_def)


section \<open>The claims\<close>

text \<open>
  C1, as amended. Let the page content be HTML-wrapped (after stripping it starts with
  \<^verbatim>\<open><html\<close>), with the first \<^verbatim>\<open><ownershipDocument>\<close> at the end of \<open>pre\<close> and the first
  \<^verbatim>\<open></ownershipDocument>\<close> after \<open>mid\<close>. When every backend call succeeds,
  \<^verbatim>\<open>make_request\<close> prints one object with the keys data, status and headers, whose data
  is exactly the text from the open tag through the close tag. The object has no field
  for a content kind or an extraction note.
\<close>

theorem wrapped_document_extracted:
  assumes "py_startswith (py_strip raw) ''<html''"
    and "raw = pre @ open_tag @ mid @ close_tag @ post"
    and "py_find raw open_tag = int (length pre)"
    and "py_find raw close_tag = int (length (pre @ open_tag @ mid))"
    and "launch b = None" "new_page b = None" "set_extra_http_headers b = None"
    and "goto b request_url = Inr (Some r)" "content_of b request_url = Inr raw" "close b = None"
  shows "unwrap_html raw = open_tag @ mid @ close_tag \<and>
         stdout (make_request b w) = stdout w @
           [JObj [(''data'', JStr (open_tag @ mid @ close_tag)),
                  (''status'', JInt (status r)),
                  (''headers'', JObj (map (\<lambda>(k, v). (k, JStr v)) (headers r)))]]"
proof -
  let ?doc = "open_tag @ mid @ close_tag"
  have e: "py_find raw close_tag + int (length close_tag) = int (length pre + length ?doc)"
    using assms(4) by simp
  have sl: "py_slice raw (int (length pre)) (int (length pre + length ?doc)) = ?doc"
    using py_slice_append [of pre ?doc post] assms(2) by simp
  have "unwrap_html raw =
      py_slice raw (py_find raw open_tag) (py_find raw close_tag + int (length close_tag))"
    using assms(1,3) by (simp add: unwrap_html_def Let_def)
  then have u: "unwrap_html raw = ?doc"
    unfolding e assms(3) sl .
  have s: "py_strip ?doc = ?doc"
    by (rule py_strip_id) (simp_all add: open_tag_def close_tag_def is_space_def)
  show ?thesis
    using u s make_request_success [OF assms(5-10), of w] by (simp add: result_fields)
qed

theorem wrapped_document_extracted_witness:
  "stdout (make_request (serving ok_response wrapped_filing) w0) =
     [JObj [(''data'', JStr ''<ownershipDocument><a/></ownershipDocument>''),
            (''status'', JInt 200),
            (''headers'', JObj [(''content-type'', JStr ''text/html'')])]]"
proof -
  have 1: "py_startswith (py_strip wrapped_filing) ''<html''"
    by (simp add: wrapped_filing_def py_startswith_def py_strip_def is_space_def)
  have 2: "wrapped_filing = ''<html><body>'' @ open_tag @ ''<a/>'' @ close_tag @ ''</body></html>''"
    by (simp add: wrapped_filing_def open_tag_def close_tag_def)
  have 3: "py_find wrapped_filing open_tag = int (length ''<html><body>'')"
    by (simp add: wrapped_filing_def open_tag_def py_find_def)
  have 4: "py_find wrapped_filing close_tag = int (length (''<html><body>'' @ open_tag @ ''<a/>''))"
    by (simp add: wrapped_filing_def open_tag_def close_tag_def py_find_def)
  show ?thesis
    using wrapped_document_extracted [OF 1 2 3 4, of "serving ok_response wrapped_filing" ok_response w0]
    by (simp add: serving_def w0_def ok_response_def open_tag_def close_tag_def)
qed

text \<open>
  C1, as stated, fails: for a wrapped filing the printed object has the three keys data,
  status and headers only, so no extraction note (and no kind) is recorded.
\<close>

theorem wrapped_document_no_note:
  "map keys_of (stdout (make_request (serving ok_response wrapped_filing) w0)) =
     [[''data'', ''status'', ''headers'']]"
  by (simp add: make_request_def make_request_page_def read_data_def xml_guard_true backend_calls
      Let_def serving_def w0_def result_def)




text \<open>
  C2. In the test scripts a page whose lower-cased content contains \<^verbatim>\<open>access denied\<close> or
  \<^verbatim>\<open>blocked\<close> is a failure, never a success: \<^verbatim>\<open>test_sec_access\<close> returns \<^verbatim>\<open>False\<close> after
  printing its blocked message, for the main page and for the EDGAR search page, and
  \<^verbatim>\<open>test_sec_form4_data\<close> does so for every content it does not recognise as a filing
  (the content is then read as a human-readable page).
\<close>

theorem block_page_is_failure:
  assumes "is_block_page c"
    and "launch b = None" "new_page b = None" "set_extra_http_headers b = None"
  shows
   "(goto b sec_main_url = Inr (Some r) \<and> content_of b sec_main_url = Inr c \<longrightarrow>
       fst (test_sec_access b w) = False \<and>
       stdout (snd (test_sec_access b w)) = stdout w @
         [[S ''Starting Camoufox test...''], [S ''Testing SEC main page...''],
          [S ''Response status: '', I (status r)], [S ''Request was blocked!'']] @
         (case close b of None \<Rightarrow> [] | Some e \<Rightarrow> [[S ''Camoufox test failed: '', S (py_str e)]])) \<and>
    (goto b sec_main_url = Inr (Some r) \<and> content_of b sec_main_url = Inr d \<and>
     \<not> is_block_page d \<and>
     goto b edgar_search_url = Inr (Some r2) \<and> content_of b edgar_search_url = Inr c \<longrightarrow>
       fst (test_sec_access b w) = False \<and>
       stdout (snd (test_sec_access b w)) = stdout w @
         [[S ''Starting Camoufox test...''], [S ''Testing SEC main page...''],
          [S ''Response status: '', I (status r)],
          [S ''Request successful - no blocking detected''],
          [S ''Testing SEC EDGAR search...''],
          [S ''EDGAR search status: '', I (status r2)], [S ''EDGAR search was blocked!'']] @
         (case close b of None \<Rightarrow> [] | Some e \<Rightarrow> [[S ''Camoufox test failed: '', S (py_str e)]])) \<and>
    (goto b form4_url = Inr (Some r) \<and> content_of b form4_url = Inr c \<and> \<not> is_form4_xml c \<longrightarrow>
       fst (test_sec_form4_data b w) = False \<and>
       stdout (snd (test_sec_form4_data b w)) = stdout w @
         [[S ''Testing SEC Form 4 data retrieval...''],
          [S ''Fetching Form 4 data from: '', S form4_url],
          [S ''Response status: '', I (status r)], [S ''Request was blocked by WAF!'']] @
         (case close b of None \<Rightarrow> [] | Some e \<Rightarrow> [[S ''SEC Form 4 test failed: '', S (py_str e)]]))"
proof -
  have 1: "goto b sec_main_url = Inr (Some r) \<Longrightarrow> content_of b sec_main_url = Inr c \<Longrightarrow>
       fst (test_sec_access b w) = False \<and>
       stdout (snd (test_sec_access b w)) = stdout w @
         [[S ''Starting Camoufox test...''], [S ''Testing SEC main page...''],
          [S ''Response status: '', I (status r)], [S ''Request was blocked!'']] @
         (case close b of None \<Rightarrow> [] | Some e \<Rightarrow> [[S ''Camoufox test failed: '', S (py_str e)]])"
    using assms by (simp add: test_defs split: option.splits)
  have 2: "goto b sec_main_url = Inr (Some r) \<Longrightarrow> content_of b sec_main_url = Inr d \<Longrightarrow>
     \<not> is_block_page d \<Longrightarrow>
     goto b edgar_search_url = Inr (Some r2) \<Longrightarrow> content_of b edgar_search_url = Inr c \<Longrightarrow>
       fst (test_sec_access b w) = False \<and>
       stdout (snd (test_sec_access b w)) = stdout w @
         [[S ''Starting Camoufox test...''], [S ''Testing SEC main page...''],
          [S ''Response status: '', I (status r)],
          [S ''Request successful - no blocking detected''],
          [S ''Testing SEC EDGAR search...''],
          [S ''EDGAR search status: '', I (status r2)], [S ''EDGAR search was blocked!'']] @
         (case close b of None \<Rightarrow> [] | Some e \<Rightarrow> [[S ''Camoufox test failed: '', S (py_str e)]])"
    using assms by (simp add: test_defs split: option.splits)
  have 3: "goto b form4_url = Inr (Some r) \<Longrightarrow> content_of b form4_url = Inr c \<Longrightarrow>
      \<not> is_form4_xml c \<Longrightarrow>
       fst (test_sec_form4_data b w) = False \<and>
       stdout (snd (test_sec_form4_data b w)) = stdout w @
         [[S ''Testing SEC Form 4 data retrieval...''],
          [S ''Fetching Form 4 data from: '', S form4_url],
          [S ''Response status: '', I (status r)], [S ''Request was blocked by WAF!'']] @
         (case close b of None \<Rightarrow> [] | Some e \<Rightarrow> [[S ''SEC Form 4 test failed: '', S (py_str e)]])"
    using assms by (simp add: test_defs split: option.splits)
  from 1 2 3 show ?thesis by blast
qed

theorem block_page_is_failure_witness:
  "fst (test_sec_access (serving ok_response denial_page) w0) = False \<and>
   stdout (snd (test_sec_access (serving ok_response denial_page) w0)) =
     [[S ''Starting Camoufox test...''], [S ''Testing SEC main page...''],
      [S ''Response status: '', I 200], [S ''Request was blocked!'']] \<and>
   fst (test_sec_access denying_search w0) = False \<and>
   stdout (snd (test_sec_access denying_search w0)) =
     [[S ''Starting Camoufox test...''], [S ''Testing SEC main page...''],
      [S ''Response status: '', I 200], [S ''Request successful - no blocking detected''],
      [S ''Testing SEC EDGAR search...''], [S ''EDGAR search status: '', I 200],
      [S ''EDGAR search was blocked!'']] \<and>
   fst (test_sec_form4_data (serving ok_response denial_page) w0) = False \<and>
   stdout (snd (test_sec_form4_data (serving ok_response denial_page) w0)) =
     [[S ''Testing SEC Form 4 data retrieval...''],
      [S ''Fetching Form 4 data from: '', S form4_url],
      [S ''Response status: '', I 200], [S ''Request was blocked by WAF!'']]"
proof -
  have b: "is_block_page denial_page" by code_simp
  have p: "\<not> is_block_page plain_page" by code_simp
  have x: "\<not> is_form4_xml denial_page" by code_simp
  have u: "edgar_search_url \<noteq> sec_main_url"
    by (simp add: edgar_search_url_def sec_main_url_def)
  note t1 = block_page_is_failure [where c = denial_page and b = "serving ok_response denial_page"
      and r = ok_response and w = w0, OF b]
  note t2 = block_page_is_failure [where c = denial_page and b = denying_search
      and r = ok_response and d = plain_page and ?r2.0 = ok_response and w = w0, OF b]
  have 1: "fst (test_sec_access (serving ok_response denial_page) w0) = False \<and>
       stdout (snd (test_sec_access (serving ok_response denial_page) w0)) = stdout w0 @
         [[S ''Starting Camoufox test...''], [S ''Testing SEC main page...''],
          [S ''Response status: '', I (status ok_response)], [S ''Request was blocked!'']] @
         (case close (serving ok_response denial_page) of None \<Rightarrow> []
          | Some e \<Rightarrow> [[S ''Camoufox test failed: '', S (py_str e)]])"
    by (rule t1 [THEN conjunct1, THEN mp]) (simp_all add: serving_def)
  have 2: "fst (test_sec_access denying_search w0) = False \<and>
       stdout (snd (test_sec_access denying_search w0)) = stdout w0 @
         [[S ''Starting Camoufox test...''], [S ''Testing SEC main page...''],
          [S ''Response status: '', I (status ok_response)],
          [S ''Request successful - no blocking detected''],
          [S ''Testing SEC EDGAR search...''],
          [S ''EDGAR search status: '', I (status ok_response)], [S ''EDGAR search was blocked!'']] @
         (case close denying_search of None \<Rightarrow> []
          | Some e \<Rightarrow> [[S ''Camoufox test failed: '', S (py_str e)]])"
    by (rule t2 [THEN conjunct2, THEN conjunct1, THEN mp])
       (simp_all add: denying_search_def serving_def p u [symmetric])
  have 3: "fst (test_sec_form4_data (serving ok_response denial_page) w0) = False \<and>
       stdout (snd (test_sec_form4_data (serving ok_response denial_page) w0)) = stdout w0 @
         [[S ''Testing SEC Form 4 data retrieval...''],
          [S ''Fetching Form 4 data from: '', S form4_url],
          [S ''Response status: '', I (status ok_response)], [S ''Request was blocked by WAF!'']] @
         (case close (serving ok_response denial_page) of None \<Rightarrow> []
          | Some e \<Rightarrow> [[S ''SEC Form 4 test failed: '', S (py_str e)]])"
    by (rule t1 [THEN conjunct2, THEN conjunct2, THEN mp]) (simp_all add: serving_def x)
  from 1 2 3 show ?thesis
    by (simp add: serving_def denying_search_def w0_def ok_response_def)
qed

text \<open>
  C3 fails on this input: the backend serves a wrapped filing, so \<^verbatim>\<open>make_request\<close>
  prints the result inside the \<^verbatim>\<open>with\<close> block; closing the browser then raises, the
  handler runs, and a second object, an error, is printed by the same call.
\<close>

theorem teardown_failure_prints_result_and_error:
  "stdout (make_request failing_close w0) =
     [JObj [(''data'', JStr ''<ownershipDocument><a/></ownershipDocument>''),
            (''status'', JInt 200),
            (''headers'', JObj [(''content-type'', JStr ''text/html'')])],
      JObj [(''data'', JNull), (''status'', JInt 500), (''headers'', JObj []),
            (''error'', JStr ''Connection closed'')]]"
  by (simp add: make_request_defs xml_guard_true failing_close_def serving_def w0_def
      result_def error_result_def ok_response_def wrapped_filing_def unwrap_html_def
      py_startswith_def py_strip_def is_space_def py_find_def open_tag_def close_tag_def
      py_slice_def slice_index_def)

text \<open>
  C4, as amended. When an exception is raised during \<^verbatim>\<open>make_request\<close> and the body of
  the \<^verbatim>\<open>with\<close> block has not completed, exactly one object is printed: an error object
  with status 500, no headers, no data, and the message of the exception that reaches
  the handler. That exception is the one raised by closing the browser when closing
  raises too; otherwise it is the first one raised: by the start of the browser, by
  opening the page, by setting the headers, by the navigation, by reading the content,
  or by reading the status of a navigation that returned \<^verbatim>\<open>None\<close>.
\<close>

theorem exception_becomes_error_result:
  "(launch b = Some e \<longrightarrow> stdout (make_request b w) = stdout w @ [error_result e]) \<and>
   (launch b = None \<and> close b = None \<and> new_page b = Some e
      \<longrightarrow> stdout (make_request b w) = stdout w @ [error_result e]) \<and>
   (launch b = None \<and> close b = None \<and> new_page b = None \<and> set_extra_http_headers b = Some e
      \<longrightarrow> stdout (make_request b w) = stdout w @ [error_result e]) \<and>
   (launch b = None \<and> close b = None \<and> new_page b = None \<and> set_extra_http_headers b = None \<and>
    goto b request_url = Inl e
      \<longrightarrow> stdout (make_request b w) = stdout w @ [error_result e]) \<and>
   (launch b = None \<and> close b = None \<and> new_page b = None \<and> set_extra_http_headers b = None \<and>
    goto b request_url = Inr ro \<and> content_of b request_url = Inl e
      \<longrightarrow> stdout (make_request b w) = stdout w @ [error_result e]) \<and>
   (launch b = None \<and> close b = None \<and> new_page b = None \<and> set_extra_http_headers b = None \<and>
    goto b request_url = Inr None \<and> content_of b request_url = Inr raw
      \<longrightarrow> stdout (make_request b w) = stdout w @ [error_result none_has_no_status]) \<and>
   (launch b = None \<and> close b = Some e \<and>
    \<not> (new_page b = None \<and> set_extra_http_headers b = None \<and>
       (\<exists>r. goto b request_url = Inr (Some r)) \<and> (\<exists>raw. content_of b request_url = Inr raw))
      \<longrightarrow> stdout (make_request b w) = stdout w @ [error_result e]) \<and>
   error_result e =
     JObj [(''data'', JNull), (''status'', JInt 500), (''headers'', JObj []),
           (''error'', JStr (py_str e))]"
proof -
  have 1: "launch b = Some e \<Longrightarrow> stdout (make_request b w) = stdout w @ [error_result e]"
    by (simp add: make_request_defs)
  have 2: "launch b = None \<Longrightarrow> close b = None \<Longrightarrow> new_page b = Some e
      \<Longrightarrow> stdout (make_request b w) = stdout w @ [error_result e]"
    by (simp add: make_request_defs)
  have 3: "launch b = None \<Longrightarrow> close b = None \<Longrightarrow> new_page b = None
      \<Longrightarrow> set_extra_http_headers b = Some e
      \<Longrightarrow> stdout (make_request b w) = stdout w @ [error_result e]"
    by (simp add: make_request_defs)
  have 4: "launch b = None \<Longrightarrow> close b = None \<Longrightarrow> new_page b = None
      \<Longrightarrow> set_extra_http_headers b = None \<Longrightarrow> goto b request_url = Inl e
      \<Longrightarrow> stdout (make_request b w) = stdout w @ [error_result e]"
    by (simp add: make_request_defs)
  have 5: "launch b = None \<Longrightarrow> close b = None \<Longrightarrow> new_page b = None
      \<Longrightarrow> set_extra_http_headers b = None \<Longrightarrow> goto b request_url = Inr ro
      \<Longrightarrow> content_of b request_url = Inl e
      \<Longrightarrow> stdout (make_request b w) = stdout w @ [error_result e]"
    by (simp add: make_request_defs xml_guard_true)
  have 6: "launch b = None \<Longrightarrow> close b = None \<Longrightarrow> new_page b = None
      \<Longrightarrow> set_extra_http_headers b = None \<Longrightarrow> goto b request_url = Inr None
      \<Longrightarrow> content_of b request_url = Inr raw
      \<Longrightarrow> stdout (make_request b w) = stdout w @ [error_result none_has_no_status]"
    by (simp add: make_request_defs xml_guard_true)
  have 7: "stdout (make_request b w) = stdout w @ [error_result e]"
    if l: "launch b = None" and c: "close b = Some e"
      and n: "\<not> (new_page b = None \<and> set_extra_http_headers b = None \<and>
       (\<exists>r. goto b request_url = Inr (Some r)) \<and> (\<exists>raw. content_of b request_url = Inr raw))"
  proof -
    have "stdout (snd (make_request_page b w')) = stdout w'" for w' :: "json world"
      using n
      by (auto simp: make_request_page_def read_data_def xml_guard_true browser_new_page_def
          page_set_extra_http_headers_def page_goto_def page_content_def log_def print_def
          split: option.splits sum.splits)
    then show ?thesis
      using l c
      by (simp add: make_request_def with_camoufox_def camoufox_enter_def camoufox_exit_def
          backend_close_stdout log_def print_def Let_def case_prod_beta)
  qed
  have 8: "error_result e =
     JObj [(''data'', JNull), (''status'', JInt 500), (''headers'', JObj []),
           (''error'', JStr (py_str e))]"
    by (simp add: error_result_def)
  from 1 2 3 4 5 6 7 8 show ?thesis by blast
qed

theorem exception_becomes_error_result_witness:
  "stdout (make_request (refusing (Exn Error ''net::ERR_CONNECTION_REFUSED'')) w0) =
     [JObj [(''data'', JNull), (''status'', JInt 500), (''headers'', JObj []),
            (''error'', JStr ''net::ERR_CONNECTION_REFUSED'')]] \<and>
   stdout (make_request double_fault w0) =
     [error_result (Exn Error ''Connection closed'')]"
proof -
  let ?e = "Exn Error ''net::ERR_CONNECTION_REFUSED''"
  let ?c = "Exn Error ''Connection closed''"
  note t = exception_becomes_error_result [of "refusing ?e" ?e w0]
  note u = exception_becomes_error_result [of double_fault ?c w0]
  have "stdout (make_request (refusing ?e) w0) = stdout w0 @ [error_result ?e]"
    by (rule t [THEN conjunct2, THEN conjunct2, THEN conjunct2, THEN conjunct1, THEN mp])
       (simp add: refusing_def serving_def)
  moreover have "stdout (make_request double_fault w0) = stdout w0 @ [error_result ?c]"
    by (rule u [THEN conjunct2, THEN conjunct2, THEN conjunct2, THEN conjunct2, THEN conjunct2,
          THEN conjunct2, THEN conjunct1, THEN mp])
       (simp add: double_fault_def refusing_def serving_def)
  ultimately show ?thesis by (simp add: w0_def error_result_def)
qed

text \<open>
  C4, as stated, fails: the navigation raises with the message \<^verbatim>\<open>net::ERR_ABORTED\<close>, then
  closing the browser raises with the message \<^verbatim>\<open>Connection closed\<close>. The one error
  printed carries the message of the close; the message of the navigation's exception is
  not preserved.
\<close>

theorem first_exception_message_lost:
  "goto double_fault request_url = Inl (Exn Error ''net::ERR_ABORTED'') \<and>
   close double_fault = Some (Exn Error ''Connection closed'') \<and>
   stdout (make_request double_fault w0) =
     [JObj [(''data'', JNull), (''status'', JInt 500), (''headers'', JObj []),
            (''error'', JStr ''Connection closed'')]]"
  by (simp add: make_request_defs double_fault_def refusing_def serving_def w0_def
      error_result_def)

text \<open>
  C5, as amended. When the navigation times out, \<^verbatim>\<open>make_request\<close> has made exactly one
  \<^verbatim>\<open>goto\<close> call, with the timeout of 30000 ms, and then closes the browser: there is no
  retry. When the browser closes cleanly, what is printed is the same error object as
  for any other exception, with the message of the timeout.
\<close>

theorem timeout_single_attempt:
  assumes "launch b = None" "new_page b = None" "set_extra_http_headers b = None"
    and "goto b request_url = Inl (Exn TimeoutError m)"
  shows "calls (make_request b w) = calls w @
           [Launch camoufox_options, NewPage, SetHeaders request_headers,
            Goto request_url ''domcontentloaded'' (Some 30000), Close (fresh_id (open_ids w))] \<and>
         (close b = None \<longrightarrow> stdout (make_request b w) = stdout w @
            [JObj [(''data'', JNull), (''status'', JInt 500), (''headers'', JObj []),
                   (''error'', JStr m)]])"
  using assms
  by (simp add: make_request_defs error_result_def split: option.splits)

theorem timeout_single_attempt_witness:
  "calls (make_request (refusing (Exn TimeoutError ''Timeout 30000ms exceeded.'')) w0) =
     [Launch camoufox_options, NewPage, SetHeaders request_headers,
      Goto request_url ''domcontentloaded'' (Some 30000), Close 1] \<and>
   stdout (make_request (refusing (Exn TimeoutError ''Timeout 30000ms exceeded.'')) w0) =
     [JObj [(''data'', JNull), (''status'', JInt 500), (''headers'', JObj []),
            (''error'', JStr ''Timeout 30000ms exceeded.'')]]"
  using timeout_single_attempt [of "refusing (Exn TimeoutError ''Timeout 30000ms exceeded.'')"
      "''Timeout 30000ms exceeded.''" w0]
  by (simp add: refusing_def serving_def w0_def fresh_id_def)

text \<open>
  C5, as stated, fails: the error object has no kind. A timeout and another exception
  with the same message print the same output.
\<close>

theorem timeout_not_distinguished:
  "stdout (make_request (refusing (Exn TimeoutError ''Timeout 30000ms exceeded.'')) w0) =
   stdout (make_request (refusing (Exn Error ''Timeout 30000ms exceeded.'')) w0)"
  by (simp add: make_request_defs refusing_def serving_def w0_def error_result_def)

text \<open>
  C7. A second run of \<^verbatim>\<open>make_request\<close> against the same backend prints what the first
  run printed, whatever the first run left behind.
\<close>

theorem make_request_repeatable:
  "printed_by b (make_request b w) = printed_by b w \<and>
   stdout (make_request b (make_request b w)) = stdout w @ printed_by b w @ printed_by b w"
proof -
  have "printed_by b w' = stdout (make_request b w0)" for w'
    unfolding printed_by_def by (subst make_request_stdout) simp
  then show ?thesis
    using make_request_stdout [of b "make_request b w"] make_request_stdout [of b w] by simp
qed



text \<open>
  C9. When the body is HTML-wrapped and contains \<^verbatim>\<open><ownershipDocument>\<close> at index
  \<open>start\<close> but no \<^verbatim>\<open></ownershipDocument>\<close>, the end of the slice is
  \<open>find(...) + len(...) = -1 + 20 = 19\<close>, the unwrapped body is \<^verbatim>\<open>raw_content[start:19]\<close>,
  which is empty when \<open>start\<close> is 19 or more, and \<^verbatim>\<open>make_request\<close> prints a result with
  that slice (stripped) as its data: it neither fails nor searches for \<^verbatim>\<open><?xml\<close>.
\<close>

theorem unclosed_open_tag_slice:
  assumes "py_startswith (py_strip raw) ''<html''"
    and "py_find raw open_tag = start" and "start > - 1"
    and "py_find raw close_tag = - 1"
  shows "py_find raw close_tag + int (length close_tag) = 19 \<and>
         unwrap_html raw = py_slice raw start 19 \<and>
         (19 \<le> start \<longrightarrow> unwrap_html raw = []) \<and>
         (launch b = None \<and> new_page b = None \<and> set_extra_http_headers b = None \<and>
          goto b request_url = Inr (Some r) \<and> content_of b request_url = Inr raw \<and> close b = None
          \<longrightarrow> stdout (make_request b w) = stdout w @ [result (py_strip (py_slice raw start 19)) r])"
proof -
  have e: "py_find raw close_tag + int (length close_tag) = 19"
    using assms(4) by (simp add: close_tag_def)
  have u: "unwrap_html raw = py_slice raw start 19"
    using assms e by (simp add: unwrap_html_def Let_def)
  have z: "19 \<le> start \<Longrightarrow> py_slice raw start 19 = []"
    by (simp add: py_slice_def slice_index_def Let_def)
  show ?thesis using e u z make_request_success [of b r raw w] by auto
qed

theorem unclosed_open_tag_slice_witness:
  "unwrap_html unclosed_filing = [] \<and>
   stdout (make_request (serving ok_response unclosed_filing) w0) = [result [] ok_response]"
proof -
  have 1: "py_startswith (py_strip unclosed_filing) ''<html''"
    by (simp add: unclosed_filing_def py_startswith_def py_strip_def is_space_def)
  have 2: "py_find unclosed_filing open_tag = 20"
    by (simp add: unclosed_filing_def open_tag_def py_find_def)
  have 3: "py_find unclosed_filing close_tag = - 1"
    by (simp add: unclosed_filing_def close_tag_def py_find_def)
  have 4: "(20::int) > - 1" by simp
  have 5: "py_strip [] = []" by (simp add: py_strip_def)
  note t = unclosed_open_tag_slice [OF 1 2 4 3, of "serving ok_response unclosed_filing" ok_response w0]
  have 6: "(19::int) \<le> 20" by simp
  from t 6 have a: "unwrap_html unclosed_filing = []" by blast
  from t have "unwrap_html unclosed_filing = py_slice unclosed_filing 20 19" by blast
  with a have s: "py_slice unclosed_filing 20 19 = []" by simp
  have "stdout (make_request (serving ok_response unclosed_filing) w0)
      = stdout w0 @ [result (py_strip (py_slice unclosed_filing 20 19)) ok_response]"
    by (rule t [THEN conjunct2, THEN conjunct2, THEN conjunct2, THEN mp]) (simp add: serving_def)
  with a s 5 show ?thesis by (simp add: w0_def)
qed

text \<open>
  C10. The test of line 24 is true whatever the backend does: the URL literal ends in
  \<^verbatim>\<open>.xml\<close> and \<^verbatim>\<open>'application/xml' in 'application/xml'\<close> holds. So the data is always
  read by the XML branch (the stripped, unwrapped page content), and the branch that
  returns the page content unchanged is never taken.
\<close>

theorem xml_branch_always_taken:
  "py_endswith request_url ''.xml'' \<and> py_in ''application/xml'' ''application/xml'' \<and> xml_guard \<and>
   read_data b w =
     (case page_content b request_url w of
        (Inl e, w1) \<Rightarrow> (Inl e, w1)
      | (Inr raw_content, w1) \<Rightarrow> (Inr (py_strip (unwrap_html raw_content)), w1))"
proof -
  have 1: "py_endswith request_url ''.xml''"
    by (simp add: py_endswith_def request_url_def suffix_to_prefix)
  have 2: "py_in ''application/xml'' ''application/xml''"
    by (simp add: py_in_def py_find_def)
  from 1 have 3: xml_guard by (simp add: xml_guard_def)
  show ?thesis using 1 2 3 by (simp add: read_data_def)
qed

end
